theory Spec2Isabelle
  imports Complex_Main
begin

section \<open>Data model of src/src/App.tsx\<close>

text \<open>
  The game is one React component. Its state cells (\<open>useState\<close>, \<open>useRef\<close>) are the
  fields of the record \<open>State\<close>; each handler and the animation-frame callback is a
  function from \<open>State\<close> to \<open>State\<close>. JavaScript numbers are modelled as \<open>real\<close>
  where the code computes with fractions (coordinates, speeds, chances) and as \<open>int\<close>
  where it only counts (score, banana hits, object ids); floating-point rounding is
  not modelled. The coordinate fields \<open>x\<close>, \<open>y\<close> of the two interfaces are written
  \<open>px\<close>, \<open>py\<close> (Player) and \<open>ox\<close>, \<open>oy\<close> (GameObject), and \<open>id\<close>, \<open>type\<close> are
  written \<open>oid\<close>, \<open>otype\<close>, because a record field is a global constant.
\<close>

datatype ObjectType = banana | candy

record GameObject =
  oid :: int
  ox :: real
  oy :: real
  width :: real
  height :: real
  otype :: ObjectType

record Player =
  px :: real
  py :: real
  velocityY :: real
  isJumping :: bool
  canDoubleJump :: bool

datatype Difficulty = easy | medium | hard | extreme | nightmare

record DifficultySettings =
  scrollSpeed :: real
  spawnInterval :: real
  bananaChance :: real
  maxBananaHits :: int

definition GAME_WIDTH :: real where "GAME_WIDTH = 400"
definition GAME_HEIGHT :: real where "GAME_HEIGHT = 600"
definition PLAYER_WIDTH :: real where "PLAYER_WIDTH = 40"
definition PLAYER_HEIGHT :: real where "PLAYER_HEIGHT = 40"
definition PLAYER_SPEED :: real where "PLAYER_SPEED = 5"
definition JUMP_FORCE :: real where "JUMP_FORCE = 15"
definition GRAVITY :: real where "GRAVITY = 0.8"
definition GROUND_Y :: real where "GROUND_Y = GAME_HEIGHT - 100"
definition OBJECT_WIDTH :: real where "OBJECT_WIDTH = 30"
definition OBJECT_HEIGHT :: real where "OBJECT_HEIGHT = 30"

fun DIFFICULTY_SETTINGS :: "Difficulty \<Rightarrow> DifficultySettings" where
  "DIFFICULTY_SETTINGS easy =
     \<lparr>scrollSpeed = 2, spawnInterval = 1500, bananaChance = 0.3, maxBananaHits = 5\<rparr>"
| "DIFFICULTY_SETTINGS medium =
     \<lparr>scrollSpeed = 3, spawnInterval = 1000, bananaChance = 0.4, maxBananaHits = 4\<rparr>"
| "DIFFICULTY_SETTINGS hard =
     \<lparr>scrollSpeed = 4, spawnInterval = 800, bananaChance = 0.5, maxBananaHits = 3\<rparr>"
| "DIFFICULTY_SETTINGS extreme =
     \<lparr>scrollSpeed = 5.5, spawnInterval = 600, bananaChance = 0.6, maxBananaHits = 2\<rparr>"
| "DIFFICULTY_SETTINGS nightmare =
     \<lparr>scrollSpeed = 7, spawnInterval = 400, bananaChance = 0.7, maxBananaHits = 1\<rparr>"

datatype GameState = GS_start | GS_difficulty | GS_playing | GS_gameover

record Keys =
  left :: bool
  right :: bool

record State =
  gameState :: GameState
  difficulty :: Difficulty
  score :: int
  bananaHits :: int
  player :: Player
  objects :: "GameObject list"
  keys :: Keys
  playerRef :: Player
  objectIdCounter :: int

text \<open>The player literal of \<open>useState<Player>\<close> and of \<open>selectDifficulty\<close>.\<close>

definition initialPlayer :: Player where
  "initialPlayer =
     \<lparr>px = GAME_WIDTH / 2 - PLAYER_WIDTH / 2, py = GROUND_Y, velocityY = 0,
      isJumping = False, canDoubleJump = False\<rparr>"

text \<open>The initial values of the hooks in \<open>App\<close>.\<close>

definition initialState :: State where
  "initialState =
     \<lparr>gameState = GS_start, difficulty = medium, score = 0, bananaHits = 0,
      player = initialPlayer, objects = [], keys = \<lparr>left = False, right = False\<rparr>,
      playerRef = initialPlayer, objectIdCounter = 0\<rparr>"

definition currentSettings :: "State \<Rightarrow> DifficultySettings" where
  "currentSettings s = DIFFICULTY_SETTINGS (difficulty s)"

section \<open>Handlers\<close>

text \<open>
  \<open>selectDifficulty\<close> sets six state cells and the id counter. The effect
  \<open>playerRef.current = player\<close> runs after the render that follows every change of
  \<open>player\<close>, so the model writes \<open>playerRef\<close> wherever \<open>setPlayer\<close> is called.
\<close>

definition selectDifficulty :: "Difficulty \<Rightarrow> State \<Rightarrow> State" where
  "selectDifficulty diff s =
     s\<lparr>difficulty := diff, gameState := GS_playing, score := 0, bananaHits := 0,
       player := initialPlayer, objects := [], objectIdCounter := 0,
       playerRef := initialPlayer\<rparr>"

definition startGame :: "State \<Rightarrow> State" where
  "startGame s = s\<lparr>gameState := GS_difficulty\<rparr>"

text \<open>The inline handler of the back button, \<open>() => setGameState('start')\<close>.\<close>

definition backToStart :: "State \<Rightarrow> State" where
  "backToStart s = s\<lparr>gameState := GS_start\<rparr>"

text \<open>
  \<open>spawnObject\<close> makes two calls of \<open>Math.random()\<close>; the model takes the two draws
  \<open>r1\<close> (kind) and \<open>r2\<close> (position) as arguments.
\<close>

definition spawnKind :: "DifficultySettings \<Rightarrow> real \<Rightarrow> ObjectType" where
  "spawnKind st r1 = (if r1 > bananaChance st then candy else banana)"

definition spawnObject :: "real \<Rightarrow> real \<Rightarrow> State \<Rightarrow> State" where
  "spawnObject r1 r2 s =
     (let type = spawnKind (currentSettings s) r1;
          x = r2 * (GAME_WIDTH - OBJECT_WIDTH)
      in s\<lparr>objects := objects s @
               [\<lparr>oid = objectIdCounter s, ox = x, oy = GAME_HEIGHT,
                 width = OBJECT_WIDTH, height = OBJECT_HEIGHT, otype = type\<rparr>],
            objectIdCounter := objectIdCounter s + 1\<rparr>)"

definition checkCollision :: "GameObject \<Rightarrow> Player \<Rightarrow> bool" where
  "checkCollision obj p \<longleftrightarrow>
     px p < ox obj + width obj \<and>
     px p + PLAYER_WIDTH > ox obj \<and>
     py p < oy obj + height obj \<and>
     py p + PLAYER_HEIGHT > oy obj"

text \<open>The updater passed to \<open>setPlayer\<close> in \<open>handleKeyDown\<close>.\<close>

definition jump :: "Player \<Rightarrow> Player" where
  "jump prev =
     (if \<not> isJumping prev then
        prev\<lparr>velocityY := - JUMP_FORCE, isJumping := True, canDoubleJump := True\<rparr>
      else if canDoubleJump prev then
        prev\<lparr>velocityY := - JUMP_FORCE, canDoubleJump := False\<rparr>
      else prev)"

datatype KeyCode = Space | ArrowLeft | ArrowRight | OtherKey

definition handleKeyDown :: "KeyCode \<Rightarrow> State \<Rightarrow> State" where
  "handleKeyDown code s =
     (let s1 = (if code = Space \<and> gameState s = GS_playing
                then s\<lparr>player := jump (player s), playerRef := jump (player s)\<rparr>
                else s);
          s2 = (if code = ArrowLeft then s1\<lparr>keys := (keys s1)\<lparr>left := True\<rparr>\<rparr> else s1)
      in if code = ArrowRight then s2\<lparr>keys := (keys s2)\<lparr>right := True\<rparr>\<rparr> else s2)"

definition handleKeyUp :: "KeyCode \<Rightarrow> State \<Rightarrow> State" where
  "handleKeyUp code s =
     (let s1 = (if code = ArrowLeft then s\<lparr>keys := (keys s)\<lparr>left := False\<rparr>\<rparr> else s)
      in if code = ArrowRight then s1\<lparr>keys := (keys s1)\<lparr>right := False\<rparr>\<rparr> else s1)"

section \<open>The animation frame\<close>

text \<open>The three steps of the \<open>setPlayer\<close> updater of \<open>gameLoop\<close>, in source order.\<close>

definition moveHorizontal :: "Keys \<Rightarrow> Player \<Rightarrow> Player" where
  "moveHorizontal k p =
     (let p1 = (if left k \<and> px p > 0 then p\<lparr>px := px p - PLAYER_SPEED\<rparr> else p)
      in if right k \<and> px p1 < GAME_WIDTH - PLAYER_WIDTH
         then p1\<lparr>px := px p1 + PLAYER_SPEED\<rparr> else p1)"

definition applyGravity :: "Player \<Rightarrow> Player" where
  "applyGravity p =
     (let p1 = p\<lparr>velocityY := velocityY p + GRAVITY\<rparr>
      in p1\<lparr>py := py p1 + velocityY p1\<rparr>)"

definition groundCollision :: "Player \<Rightarrow> Player" where
  "groundCollision p =
     (if py p \<ge> GROUND_Y
      then p\<lparr>py := GROUND_Y, velocityY := 0, isJumping := False, canDoubleJump := False\<rparr>
      else p)"

definition updatePlayer :: "Keys \<Rightarrow> Player \<Rightarrow> Player" where
  "updatePlayer k prevPlayer = groundCollision (applyGravity (moveHorizontal k prevPlayer))"

text \<open>
  The updater passed to \<open>setBananaHits\<close>: it returns the new count and, as a side
  effect, may set the game state.
\<close>

definition hitBanana :: "DifficultySettings \<Rightarrow> State \<Rightarrow> State" where
  "hitBanana st s =
     (let newHits = bananaHits s + 1;
          s1 = (if newHits \<ge> maxBananaHits st then s\<lparr>gameState := GS_gameover\<rparr> else s)
      in s1\<lparr>bananaHits := newHits\<rparr>)"

definition movedObj :: "DifficultySettings \<Rightarrow> GameObject \<Rightarrow> GameObject" where
  "movedObj st obj = obj\<lparr>oy := oy obj - scrollSpeed st\<rparr>"

text \<open>
  The body of \<open>prevObjects.forEach\<close>. The loop carries the local array
  \<open>objectsToKeep\<close> and the state cells that \<open>setBananaHits\<close>, \<open>setGameState\<close> and
  \<open>setScore\<close> write. The player tested is \<open>playerRef.current\<close>, which during the
  frame still holds the player of the last render. Each updater is taken to run once
  per frame, as in a production build of React.
\<close>

definition forEachBody ::
  "DifficultySettings \<Rightarrow> Player \<Rightarrow> GameObject list \<times> State \<Rightarrow> GameObject \<Rightarrow>
   GameObject list \<times> State" where
  "forEachBody st p acc obj =
     (let objectsToKeep = fst acc; s = snd acc; m = movedObj st obj
      in if oy m \<le> - OBJECT_HEIGHT then (objectsToKeep, s)
         else if checkCollision m p then
           (if otype m = banana then (objectsToKeep, hitBanana st s)
            else if otype m = candy then (objectsToKeep, s\<lparr>score := score s + 10\<rparr>)
            else (objectsToKeep, s))
         else (objectsToKeep @ [m], s))"

definition gameLoop :: "State \<Rightarrow> State" where
  "gameLoop s =
     (let newPlayer = updatePlayer (keys s) (player s);
          r = foldl (forEachBody (currentSettings s) (playerRef s)) ([], s) (objects s)
      in (snd r)\<lparr>player := newPlayer, objects := fst r, playerRef := newPlayer\<rparr>)"

section \<open>Events\<close>

text \<open>
  What can happen to the component. A button exists only while its screen is
  rendered (\<open>gameState === 'start' && ...\<close> in the JSX), the key listeners are always
  attached, and the frame loop and the spawn timer run only while
  \<open>gameState === 'playing'\<close> (the effect cancels both otherwise).
\<close>

datatype Event =
    ClickStart
  | ClickDifficulty Difficulty
  | ClickBack
  | KeyDown KeyCode
  | KeyUp KeyCode
  | AnimationFrame
  | SpawnTimer real real

fun step :: "State \<Rightarrow> Event \<Rightarrow> State" where
  "step s ClickStart =
     (if gameState s = GS_start \<or> gameState s = GS_gameover then startGame s else s)"
| "step s (ClickDifficulty diff) =
     (if gameState s = GS_difficulty then selectDifficulty diff s else s)"
| "step s ClickBack = (if gameState s = GS_difficulty then backToStart s else s)"
| "step s (KeyDown code) = handleKeyDown code s"
| "step s (KeyUp code) = handleKeyUp code s"
| "step s AnimationFrame = (if gameState s = GS_playing then gameLoop s else s)"
| "step s (SpawnTimer r1 r2) = (if gameState s = GS_playing then spawnObject r1 r2 s else s)"

definition run :: "Event list \<Rightarrow> State" where
  "run evs = foldl step initialState evs"

section \<open>Predicates used to state the properties\<close>

text \<open>The outcome of one object in one frame, after it has been moved.\<close>

definition offScreen :: "GameObject \<Rightarrow> bool" where
  "offScreen m \<longleftrightarrow> oy m \<le> - OBJECT_HEIGHT"

definition consumed :: "DifficultySettings \<Rightarrow> Player \<Rightarrow> GameObject \<Rightarrow> bool" where
  "consumed st p obj \<longleftrightarrow>
     \<not> offScreen (movedObj st obj) \<and> checkCollision (movedObj st obj) p"

definition retained :: "DifficultySettings \<Rightarrow> Player \<Rightarrow> GameObject \<Rightarrow> bool" where
  "retained st p obj \<longleftrightarrow>
     \<not> offScreen (movedObj st obj) \<and> \<not> checkCollision (movedObj st obj) p"

text \<open>How many objects of one kind a frame consumes.\<close>

definition hitsOf ::
  "ObjectType \<Rightarrow> DifficultySettings \<Rightarrow> Player \<Rightarrow> GameObject list \<Rightarrow> int" where
  "hitsOf kind st p objs =
     int (length (filter (\<lambda>obj. consumed st p obj \<and> otype obj = kind) objs))"

text \<open>
  The relation between the hit count and the game state inside a session: below the
  threshold the game is being played, at or above it the game is over.
\<close>

definition hitsConsistent :: "DifficultySettings \<Rightarrow> State \<Rightarrow> bool" where
  "hitsConsistent st s \<longleftrightarrow>
     (if bananaHits s < maxBananaHits st then gameState s = GS_playing
      else gameState s = GS_gameover)"

definition sessionInv :: "State \<Rightarrow> bool" where
  "sessionInv s \<longleftrightarrow>
     (gameState s = GS_playing \<longrightarrow> bananaHits s < maxBananaHits (currentSettings s))"

text \<open>The player stands on a multiple of \<open>PLAYER_SPEED\<close> inside the world.\<close>

definition onGrid :: "Player \<Rightarrow> bool" where
  "onGrid p \<longleftrightarrow> (\<exists>k::int. 0 \<le> k \<and> k \<le> 72 \<and> px p = PLAYER_SPEED * of_int k)"

definition armedOnlyAirborne :: "Player \<Rightarrow> bool" where
  "armedOnlyAirborne p \<longleftrightarrow> (canDoubleJump p \<longrightarrow> isJumping p)"


text \<open>The draws of the unit interval for which the spawner makes a banana.\<close>

definition hazardDraws :: "DifficultySettings \<Rightarrow> real set" where
  "hazardDraws st = {r. 0 \<le> r \<and> r \<le> 1 \<and> spawnKind st r = banana}"

text \<open>A session on the easy tier into which three objects have been placed.\<close>

definition injected :: State where
  "injected = (selectDifficulty easy initialState)\<lparr>objects :=
     [\<lparr>oid = 0, ox = 185, oy = 520, width = OBJECT_WIDTH, height = OBJECT_HEIGHT, otype = candy\<rparr>,
      \<lparr>oid = 1, ox = 170, oy = 530, width = OBJECT_WIDTH, height = OBJECT_HEIGHT, otype = banana\<rparr>,
      \<lparr>oid = 2, ox = 10, oy = 600, width = OBJECT_WIDTH, height = OBJECT_HEIGHT, otype = candy\<rparr>]\<rparr>"

text \<open>
  A session on the hard tier in which three bananas are spawned at \<open>x = 185\<close>, one
  frame apart, and rise until the first is one frame below the player's feet.
\<close>

definition approach :: "Event list" where
  "approach =
     [ClickStart, ClickDifficulty hard,
      SpawnTimer 0.2 0.5, AnimationFrame,
      SpawnTimer 0.2 0.5, AnimationFrame,
      SpawnTimer 0.2 0.5,
      AnimationFrame, AnimationFrame, AnimationFrame, AnimationFrame, AnimationFrame,
      AnimationFrame, AnimationFrame, AnimationFrame, AnimationFrame, AnimationFrame,
      AnimationFrame, AnimationFrame, AnimationFrame]"

definition bananaAt :: "int \<Rightarrow> real \<Rightarrow> GameObject" where
  "bananaAt i y = \<lparr>oid = i, ox = 185, oy = y, width = 30, height = 30, otype = banana\<rparr>"



section \<open>Basic facts\<close>

lemmas constants =
  GAME_WIDTH_def GAME_HEIGHT_def PLAYER_WIDTH_def PLAYER_HEIGHT_def PLAYER_SPEED_def
  JUMP_FORCE_def GRAVITY_def GROUND_Y_def OBJECT_WIDTH_def OBJECT_HEIGHT_def

lemma run_Nil: "run [] = initialState"
  by (simp add: run_def)

lemma run_snoc: "run (evs @ [e]) = step (run evs) e"
  by (simp add: run_def)

lemma run_invariant:
  assumes init: "P initialState"
    and pres: "\<And>s e. P s \<Longrightarrow> P (step s e)"
  shows "P (run evs)"
proof (induction evs rule: rev_induct)
  case Nil
  show ?case using init by (simp add: run_Nil)
next
  case (snoc e evs)
  then show ?case by (simp add: run_snoc pres)
qed

lemma otype_movedObj [simp]: "otype (movedObj st obj) = otype obj"
  by (simp add: movedObj_def)

lemma forEachBody_cases:
  "forEachBody st p (keep, s) obj =
     (if offScreen (movedObj st obj) then (keep, s)
      else if checkCollision (movedObj st obj) p then
        (case otype obj of banana \<Rightarrow> (keep, hitBanana st s)
                         | candy \<Rightarrow> (keep, s\<lparr>score := score s + 10\<rparr>))
      else (keep @ [movedObj st obj], s))"
  by (cases "otype obj") (simp_all add: forEachBody_def offScreen_def Let_def)

lemma hitBanana_fields [simp]:
  "bananaHits (hitBanana st s) = bananaHits s + 1"
  "score (hitBanana st s) = score s"
  "difficulty (hitBanana st s) = difficulty s"
  "gameState (hitBanana st s) =
     (if maxBananaHits st \<le> bananaHits s + 1 then GS_gameover else gameState s)"
  by (simp_all add: hitBanana_def Let_def)

lemma foldl_keep:
  "fst (foldl (forEachBody st p) (keep, s) objs) =
     keep @ map (movedObj st) (filter (retained st p) objs)"
proof (induction objs arbitrary: keep s)
  case Nil
  show ?case by simp
next
  case (Cons obj objs)
  show ?case
    by (cases "otype obj") (simp_all add: forEachBody_cases Cons.IH retained_def)
qed

lemma foldl_bananaHits:
  "bananaHits (snd (foldl (forEachBody st p) (keep, s) objs)) =
     bananaHits s + hitsOf banana st p objs"
proof (induction objs arbitrary: keep s)
  case Nil
  show ?case by (simp add: hitsOf_def)
next
  case (Cons obj objs)
  show ?case
    by (cases "otype obj") (simp_all add: forEachBody_cases Cons.IH hitsOf_def consumed_def)
qed

lemma foldl_score:
  "score (snd (foldl (forEachBody st p) (keep, s) objs)) =
     score s + 10 * hitsOf candy st p objs"
proof (induction objs arbitrary: keep s)
  case Nil
  show ?case by (simp add: hitsOf_def)
next
  case (Cons obj objs)
  show ?case
    by (cases "otype obj") (simp_all add: forEachBody_cases Cons.IH hitsOf_def consumed_def)
qed

lemma foldl_difficulty:
  "difficulty (snd (foldl (forEachBody st p) (keep, s) objs)) = difficulty s"
proof (induction objs arbitrary: keep s)
  case Nil
  show ?case by simp
next
  case (Cons obj objs)
  show ?case
    by (cases "otype obj") (simp_all add: forEachBody_cases Cons.IH)
qed

lemma hitsConsistent_body:
  "hitsConsistent st s \<Longrightarrow> hitsConsistent st (snd (forEachBody st p (keep, s) obj))"
  by (cases "otype obj") (auto simp: forEachBody_cases hitsConsistent_def)

lemma hitsConsistent_foldl:
  "hitsConsistent st s \<Longrightarrow> hitsConsistent st (snd (foldl (forEachBody st p) (keep, s) objs))"
proof (induction objs arbitrary: keep s)
  case Nil
  then show ?case by simp
next
  case (Cons obj objs)
  obtain keep' s' where eq: "forEachBody st p (keep, s) obj = (keep', s')"
    by (cases "forEachBody st p (keep, s) obj")
  with hitsConsistent_body [OF Cons.prems, of p keep obj] have "hitsConsistent st s'"
    by simp
  then show ?case using Cons.IH eq by simp
qed

lemma gameLoop_fields:
  "bananaHits (gameLoop s) = bananaHits s + hitsOf banana (currentSettings s) (playerRef s) (objects s)"
  "score (gameLoop s) = score s + 10 * hitsOf candy (currentSettings s) (playerRef s) (objects s)"
  "objects (gameLoop s) = map (movedObj (currentSettings s)) (filter (retained (currentSettings s) (playerRef s)) (objects s))"
  "difficulty (gameLoop s) = difficulty s"
  "player (gameLoop s) = updatePlayer (keys s) (player s)"
  "playerRef (gameLoop s) = updatePlayer (keys s) (player s)"
  by (simp_all add: gameLoop_def Let_def foldl_bananaHits foldl_score foldl_keep foldl_difficulty)

lemma gameLoop_hitsConsistent:
  "hitsConsistent (currentSettings s) s \<Longrightarrow> hitsConsistent (currentSettings s) (gameLoop s)"
  using hitsConsistent_foldl [of "currentSettings s" s "playerRef s" "[]" "objects s"]
  by (simp add: gameLoop_def Let_def hitsConsistent_def)

lemma maxBananaHits_pos: "0 < maxBananaHits (DIFFICULTY_SETTINGS d)"
  by (cases d) simp_all

lemma handleKey_fields [simp]:
  "gameState (handleKeyDown c s) = gameState s"
  "bananaHits (handleKeyDown c s) = bananaHits s"
  "difficulty (handleKeyDown c s) = difficulty s"
  "score (handleKeyDown c s) = score s"
  "objects (handleKeyDown c s) = objects s"
  "gameState (handleKeyUp c s) = gameState s"
  "bananaHits (handleKeyUp c s) = bananaHits s"
  "difficulty (handleKeyUp c s) = difficulty s"
  "score (handleKeyUp c s) = score s"
  "objects (handleKeyUp c s) = objects s"
  "player (handleKeyUp c s) = player s"
  by (simp_all add: handleKeyDown_def handleKeyUp_def Let_def)

lemma sessionInv_step: "sessionInv s \<Longrightarrow> sessionInv (step s e)"
proof (cases e)
  case AnimationFrame
  assume inv: "sessionInv s"
  show ?thesis
  proof (cases "gameState s = GS_playing")
    case True
    with inv have "hitsConsistent (currentSettings s) s"
      by (simp add: sessionInv_def hitsConsistent_def)
    from gameLoop_hitsConsistent [OF this] show ?thesis
      using True AnimationFrame
      by (auto simp: sessionInv_def hitsConsistent_def currentSettings_def gameLoop_fields split: if_splits)
  next
    case False
    with inv AnimationFrame show ?thesis by simp
  qed
qed (auto simp: sessionInv_def currentSettings_def startGame_def selectDifficulty_def
      backToStart_def spawnObject_def Let_def maxBananaHits_pos)

lemma sessionInv_run: "sessionInv (run evs)"
proof (rule run_invariant)
  show "sessionInv initialState" by (simp add: sessionInv_def initialState_def)
qed (rule sessionInv_step)

lemma gameLoop_gameState:
  "gameState (gameLoop s) =
     gameState (snd (foldl (forEachBody (currentSettings s) (playerRef s)) ([], s) (objects s)))"
  by (simp add: gameLoop_def Let_def)

lemma hitsOf_nonneg: "0 \<le> hitsOf kind st p objs"
  by (simp add: hitsOf_def)

lemma bananaHits_step_mono:
  "gameState s = GS_playing \<Longrightarrow> bananaHits s \<le> bananaHits (step s e)"
  by (cases e) (simp_all add: gameLoop_fields hitsOf_nonneg spawnObject_def Let_def)

subsection \<open>Invariants of the player along every run\<close>

lemma player_run_invariant:
  assumes init: "P initialPlayer"
    and jmp: "\<And>p. P p \<Longrightarrow> P (jump p)"
    and upd: "\<And>k p. P p \<Longrightarrow> P (updatePlayer k p)"
  shows "P (player (run evs)) \<and> P (playerRef (run evs))"
proof (rule run_invariant [where P = "\<lambda>s. P (player s) \<and> P (playerRef s)"])
  show "P (player initialState) \<and> P (playerRef initialState)"
    using init by (simp add: initialState_def)
next
  fix s :: State and e
  assume inv: "P (player s) \<and> P (playerRef s)"
  show "P (player (step s e)) \<and> P (playerRef (step s e))"
  proof (cases e)
    case (KeyDown c)
    then show ?thesis using inv jmp [of "player s"]
      by (cases c) (simp_all add: handleKeyDown_def Let_def)
  next
    case (KeyUp c)
    then show ?thesis using inv by (cases c) (simp_all add: handleKeyUp_def Let_def)
  next
    case AnimationFrame
    then show ?thesis using inv upd [of "player s" "keys s"]
      by (simp add: gameLoop_fields)
  qed (use inv init in \<open>simp_all add: startGame_def selectDifficulty_def backToStart_def
         spawnObject_def Let_def\<close>)
qed

lemma onGrid_initialPlayer: "onGrid initialPlayer"
  unfolding onGrid_def initialPlayer_def constants
  by (rule exI [of _ 36]) simp

lemma onGrid_moveHorizontal:
  assumes "onGrid p"
  shows "onGrid (moveHorizontal k p)"
proof -
  from assms obtain n :: int where n: "0 \<le> n" "n \<le> 72" "px p = PLAYER_SPEED * of_int n"
    by (auto simp: onGrid_def)
  let ?a = "if left k \<and> px p > 0 then n - 1 else n"
  let ?p1 = "if left k \<and> px p > 0 then p\<lparr>px := px p - PLAYER_SPEED\<rparr> else p"
  have a: "0 \<le> ?a" "?a \<le> 72" "px ?p1 = PLAYER_SPEED * of_int ?a"
    using n by (auto simp: constants algebra_simps)
  let ?b = "if right k \<and> px ?p1 < GAME_WIDTH - PLAYER_WIDTH then ?a + 1 else ?a"
  have b: "0 \<le> ?b" "?b \<le> 72" "px (moveHorizontal k p) = PLAYER_SPEED * of_int ?b"
    using a unfolding moveHorizontal_def Let_def by (auto simp: constants algebra_simps)
  show ?thesis unfolding onGrid_def using b by blast
qed

lemma px_vertical [simp]:
  "px (applyGravity p) = px p" "px (groundCollision p) = px p" "px (jump p) = px p"
  by (simp_all add: applyGravity_def groundCollision_def jump_def Let_def)

lemma onGrid_cong: "px q = px p \<Longrightarrow> onGrid q = onGrid p"
  by (simp add: onGrid_def)

lemma onGrid_updatePlayer: "onGrid p \<Longrightarrow> onGrid (updatePlayer k p)"
  using onGrid_moveHorizontal [of p k]
  by (simp add: updatePlayer_def onGrid_cong [of "groundCollision _"])

lemma onGrid_jump: "onGrid p \<Longrightarrow> onGrid (jump p)"
  by (simp add: onGrid_cong [of "jump p" p])

lemma onGrid_bounds: "onGrid p \<Longrightarrow> 0 \<le> px p \<and> px p \<le> GAME_WIDTH - PLAYER_WIDTH"
  by (auto simp: onGrid_def constants)

lemma onGrid_run: "onGrid (player (run evs))"
proof -
  have "onGrid (player (run evs)) \<and> onGrid (playerRef (run evs))"
    by (rule player_run_invariant)
      (simp_all add: onGrid_initialPlayer onGrid_jump onGrid_updatePlayer)
  then show ?thesis by simp
qed

lemma px_updatePlayer: "px (updatePlayer k p) = px (moveHorizontal k p)"
  by (simp add: updatePlayer_def)

lemma armed_jump: "armedOnlyAirborne (jump p)"
  by (simp add: armedOnlyAirborne_def jump_def)

lemma flags_moveHorizontal [simp]:
  "isJumping (moveHorizontal k p) = isJumping p"
  "canDoubleJump (moveHorizontal k p) = canDoubleJump p"
  "py (moveHorizontal k p) = py p"
  "velocityY (moveHorizontal k p) = velocityY p"
  by (simp_all add: moveHorizontal_def Let_def)

lemma flags_applyGravity [simp]:
  "isJumping (applyGravity p) = isJumping p"
  "canDoubleJump (applyGravity p) = canDoubleJump p"
  "py (applyGravity p) = py p + (velocityY p + GRAVITY)"
  "velocityY (applyGravity p) = velocityY p + GRAVITY"
  by (simp_all add: applyGravity_def Let_def)

lemma armed_updatePlayer: "armedOnlyAirborne p \<Longrightarrow> armedOnlyAirborne (updatePlayer k p)"
  by (simp add: armedOnlyAirborne_def updatePlayer_def groundCollision_def)





subsection \<open>The object loop and the spawner\<close>



lemma bananaChance_range:
  "0 \<le> bananaChance (DIFFICULTY_SETTINGS d) \<and> bananaChance (DIFFICULTY_SETTINGS d) \<le> 1"
  by (cases d) simp_all

lemma hazardDraws_interval:
  "hazardDraws (DIFFICULTY_SETTINGS d) = {0 .. bananaChance (DIFFICULTY_SETTINGS d)}"
  using bananaChance_range [of d] by (auto simp: hazardDraws_def spawnKind_def)

lemma spawn_x_image:
  "(\<lambda>r. r * (GAME_WIDTH - OBJECT_WIDTH)) ` {0..1} = {0 .. GAME_WIDTH - OBJECT_WIDTH}"
proof (rule set_eqI)
  fix x :: real
  show "x \<in> (\<lambda>r. r * (GAME_WIDTH - OBJECT_WIDTH)) ` {0..1} \<longleftrightarrow>
        x \<in> {0 .. GAME_WIDTH - OBJECT_WIDTH}"
  proof
    assume "x \<in> (\<lambda>r. r * (GAME_WIDTH - OBJECT_WIDTH)) ` {0..1}"
    then show "x \<in> {0 .. GAME_WIDTH - OBJECT_WIDTH}" by (auto simp: constants)
  next
    assume x: "x \<in> {0 .. GAME_WIDTH - OBJECT_WIDTH}"
    then have draw: "x / 370 \<in> {0..1}"
      and eq: "x = (x / 370) * (GAME_WIDTH - OBJECT_WIDTH)"
      by (simp_all add: constants)
    show "x \<in> (\<lambda>r. r * (GAME_WIDTH - OBJECT_WIDTH)) ` {0..1}"
      using eq draw by (rule image_eqI)
  qed
qed

subsection \<open>Frames of a concrete session\<close>

lemma standing: "updatePlayer \<lparr>left = False, right = False\<rparr> initialPlayer = initialPlayer"
  by (simp add: updatePlayer_def moveHorizontal_def applyGravity_def groundCollision_def
      initialPlayer_def Let_def constants)

lemma run_approach:
  "run approach =
     \<lparr>gameState = GS_playing, difficulty = hard, score = 0, bananaHits = 0,
      player = initialPlayer,
      objects = [bananaAt 0 540, bananaAt 1 544, bananaAt 2 548],
      keys = \<lparr>left = False, right = False\<rparr>,
      playerRef = initialPlayer, objectIdCounter = 3\<rparr>"
  by (simp add: approach_def run_def initialState_def startGame_def selectDifficulty_def
      spawnObject_def spawnKind_def currentSettings_def gameLoop_def forEachBody_def
      movedObj_def checkCollision_def bananaAt_def Let_def
      updatePlayer_def moveHorizontal_def applyGravity_def groundCollision_def
      initialPlayer_def constants)

lemma foldl_gameState:
  assumes "hitsConsistent st s"
  shows "gameState (snd (foldl (forEachBody st p) (keep, s) objs)) =
     (if maxBananaHits st \<le> bananaHits s + hitsOf banana st p objs
      then GS_gameover else GS_playing)"
  using hitsConsistent_foldl [OF assms, of p keep objs]
  by (simp add: hitsConsistent_def foldl_bananaHits split: if_splits)

lemma forEachBody_hit:
  "consumed st p obj \<Longrightarrow> otype obj = banana \<Longrightarrow>
     forEachBody st p (keep, t) obj = (keep, hitBanana st t)"
  by (simp add: forEachBody_cases consumed_def)

lemma forEachBody_no_hit:
  "\<not> (consumed st p obj \<and> otype obj = banana) \<Longrightarrow>
     bananaHits (snd (forEachBody st p (keep, t) obj)) = bananaHits t \<and>
     gameState (snd (forEachBody st p (keep, t) obj)) = gameState t"
  by (cases "otype obj") (auto simp: forEachBody_cases consumed_def)

lemma run_append: "run (xs @ ys) = foldl step (run xs) ys"
  by (simp add: run_def)

lemma gameLoop_keys: "keys (gameLoop s) = keys s"
proof -
  have "keys (snd (foldl (forEachBody st p) (keep, t) objs)) = keys t" for st p keep t objs
  proof (induction objs arbitrary: keep t)
    case Nil
    show ?case by simp
  next
    case (Cons obj objs)
    show ?case
      by (cases "otype obj") (simp_all add: forEachBody_cases Cons.IH hitBanana_def Let_def)
  qed
  then show ?thesis by (simp add: gameLoop_def Let_def)
qed

lemma currentSettings_gameLoop: "currentSettings (gameLoop s) = currentSettings s"
  by (simp add: currentSettings_def gameLoop_fields)

lemma hits_on_player:
  "hitsOf banana (DIFFICULTY_SETTINGS hard) initialPlayer [bananaAt 0 540, bananaAt 1 544, bananaAt 2 548] = 1"
  "hitsOf banana (DIFFICULTY_SETTINGS hard) initialPlayer [bananaAt 1 540, bananaAt 2 544] = 1"
  "hitsOf banana (DIFFICULTY_SETTINGS hard) initialPlayer [bananaAt 2 540] = 1"
  "\<not> retained (DIFFICULTY_SETTINGS hard) initialPlayer (bananaAt i 540)"
  "retained (DIFFICULTY_SETTINGS hard) initialPlayer (bananaAt i 544)"
  "retained (DIFFICULTY_SETTINGS hard) initialPlayer (bananaAt i 548)"
  "movedObj (DIFFICULTY_SETTINGS hard) (bananaAt i y) = bananaAt i (y - 4)"
  by (simp_all add: hitsOf_def consumed_def retained_def offScreen_def checkCollision_def
      movedObj_def bananaAt_def initialPlayer_def constants)

section \<open>Hazard hits and the end of the game\<close>

text \<open>
  C1. For every state that is being played with a hit count below the tier's
  \<open>maxBananaHits\<close>: no event lowers the count; a frame adds exactly the number of
  on-screen bananas that overlap the player, and ends the game exactly if the new
  count has reached the threshold, leaving it being played otherwise; the same holds
  after every prefix of the frame's object loop, so the game ends at the hit that
  first reaches the threshold. In the loop body, from any state, a banana that is
  consumed adds exactly one and sets the game over exactly if the new count has
  reached the threshold; every other object leaves the count and the game state
  alone. Every state that a run of the game reaches while playing has its count below
  the threshold.
\<close>

theorem banana_hits_trigger_gameover:
  assumes playing: "gameState s = GS_playing"
    and below: "bananaHits s < maxBananaHits (currentSettings s)"
  shows "bananaHits s \<le> bananaHits (step s e) \<and>
    bananaHits (gameLoop s) =
      bananaHits s + hitsOf banana (currentSettings s) (playerRef s) (objects s) \<and>
    gameState (gameLoop s) =
      (if maxBananaHits (currentSettings s) \<le>
            bananaHits s + hitsOf banana (currentSettings s) (playerRef s) (objects s)
       then GS_gameover else GS_playing) \<and>
    bananaHits (snd (foldl (forEachBody (currentSettings s) (playerRef s)) ([], s)
        (take n (objects s)))) =
      bananaHits s + hitsOf banana (currentSettings s) (playerRef s) (take n (objects s)) \<and>
    gameState (snd (foldl (forEachBody (currentSettings s) (playerRef s)) ([], s)
        (take n (objects s)))) =
      (if maxBananaHits (currentSettings s) \<le>
            bananaHits s + hitsOf banana (currentSettings s) (playerRef s) (take n (objects s))
       then GS_gameover else GS_playing) \<and>
    (consumed st p obj \<and> otype obj = banana \<longrightarrow>
       bananaHits (snd (forEachBody st p (keep, t) obj)) = bananaHits t + 1 \<and>
       gameState (snd (forEachBody st p (keep, t) obj)) =
         (if maxBananaHits st \<le> bananaHits t + 1 then GS_gameover else gameState t)) \<and>
    (\<not> (consumed st p obj \<and> otype obj = banana) \<longrightarrow>
       bananaHits (snd (forEachBody st p (keep, t) obj)) = bananaHits t \<and>
       gameState (snd (forEachBody st p (keep, t) obj)) = gameState t) \<and>
    (gameState (run evs) = GS_playing \<longrightarrow>
       bananaHits (run evs) < maxBananaHits (currentSettings (run evs)))"
proof -
  have cons: "hitsConsistent (currentSettings s) s"
    using playing below by (simp add: hitsConsistent_def)
  have reach: "gameState (run evs) = GS_playing \<longrightarrow>
       bananaHits (run evs) < maxBananaHits (currentSettings (run evs))"
    using sessionInv_run [of evs] by (simp add: sessionInv_def)
  have hit: "consumed st p obj \<and> otype obj = banana \<longrightarrow>
       bananaHits (snd (forEachBody st p (keep, t) obj)) = bananaHits t + 1 \<and>
       gameState (snd (forEachBody st p (keep, t) obj)) =
         (if maxBananaHits st \<le> bananaHits t + 1 then GS_gameover else gameState t)"
    by (simp add: forEachBody_hit)
  have nohit: "\<not> (consumed st p obj \<and> otype obj = banana) \<longrightarrow>
       bananaHits (snd (forEachBody st p (keep, t) obj)) = bananaHits t \<and>
       gameState (snd (forEachBody st p (keep, t) obj)) = gameState t"
    using forEachBody_no_hit [of st p obj keep t] by blast
  have frame: "gameState (gameLoop s) =
      (if maxBananaHits (currentSettings s) \<le>
            bananaHits s + hitsOf banana (currentSettings s) (playerRef s) (objects s)
       then GS_gameover else GS_playing)"
    using foldl_gameState [OF cons, of "playerRef s" "[]" "objects s"]
    by (simp add: gameLoop_gameState)
  show ?thesis
    using bananaHits_step_mono [OF playing, of e] frame
      foldl_gameState [OF cons, of "playerRef s" "[]" "take n (objects s)"]
      hit nohit reach
    by (simp add: gameLoop_fields foldl_bananaHits)
qed

text \<open>
  On the hard tier (\<open>maxBananaHits = 3\<close>) three bananas reach the player in three
  successive frames: after the first and the second hit the game is still being
  played, and the third hit ends it in its own frame.
\<close>

theorem banana_hits_trigger_gameover_witness:
  "gameState (run approach) = GS_playing \<and> bananaHits (run approach) = 0 \<and>
   maxBananaHits (currentSettings (run approach)) = 3 \<and>
   gameState (run (approach @ [AnimationFrame])) = GS_playing \<and>
   bananaHits (run (approach @ [AnimationFrame])) = 1 \<and>
   gameState (run (approach @ [AnimationFrame, AnimationFrame])) = GS_playing \<and>
   bananaHits (run (approach @ [AnimationFrame, AnimationFrame])) = 2 \<and>
   gameState (run (approach @ [AnimationFrame, AnimationFrame, AnimationFrame])) = GS_gameover \<and>
   bananaHits (run (approach @ [AnimationFrame, AnimationFrame, AnimationFrame])) = 3"
proof -
  let ?st = "DIFFICULTY_SETTINGS hard"
  let ?s0 = "run approach"
  let ?s1 = "gameLoop ?s0"
  let ?s2 = "gameLoop ?s1"
  let ?s3 = "gameLoop ?s2"
  have p0: "gameState ?s0 = GS_playing" and h0: "bananaHits ?s0 = 0"
    and st0: "currentSettings ?s0 = ?st" and r0: "playerRef ?s0 = initialPlayer"
    and k0: "keys ?s0 = \<lparr>left = False, right = False\<rparr>" and pl0: "player ?s0 = initialPlayer"
    and o0: "objects ?s0 = [bananaAt 0 540, bananaAt 1 544, bananaAt 2 548]"
    by (simp_all add: run_approach currentSettings_def)
  have b0: "bananaHits ?s0 < maxBananaHits (currentSettings ?s0)"
    by (simp add: h0 st0)
  have "bananaHits ?s1 =
      bananaHits ?s0 + hitsOf banana (currentSettings ?s0) (playerRef ?s0) (objects ?s0)"
    and "gameState ?s1 =
      (if maxBananaHits (currentSettings ?s0) \<le>
            bananaHits ?s0 + hitsOf banana (currentSettings ?s0) (playerRef ?s0) (objects ?s0)
       then GS_gameover else GS_playing)"
    using banana_hits_trigger_gameover [OF p0 b0] by blast+
  then have h1: "bananaHits ?s1 = 1" and p1: "gameState ?s1 = GS_playing"
    unfolding st0 r0 o0 h0 hits_on_player by simp_all
  have st1: "currentSettings ?s1 = ?st"
    unfolding currentSettings_gameLoop [of ?s0] by (rule st0)
  have k1: "keys ?s1 = \<lparr>left = False, right = False\<rparr>"
    unfolding gameLoop_keys [of ?s0] by (rule k0)
  have pl1: "player ?s1 = initialPlayer" and r1: "playerRef ?s1 = initialPlayer"
    unfolding gameLoop_fields(5,6) [of ?s0] k0 pl0 by (rule standing)+
  have o1: "objects ?s1 = [bananaAt 1 540, bananaAt 2 544]"
    unfolding gameLoop_fields(3) [of ?s0] st0 r0 o0
    by (simp add: hits_on_player del: DIFFICULTY_SETTINGS.simps)
  have b1: "bananaHits ?s1 < maxBananaHits (currentSettings ?s1)"
    by (simp add: h1 st1)
  have "bananaHits ?s2 =
      bananaHits ?s1 + hitsOf banana (currentSettings ?s1) (playerRef ?s1) (objects ?s1)"
    and "gameState ?s2 =
      (if maxBananaHits (currentSettings ?s1) \<le>
            bananaHits ?s1 + hitsOf banana (currentSettings ?s1) (playerRef ?s1) (objects ?s1)
       then GS_gameover else GS_playing)"
    using banana_hits_trigger_gameover [OF p1 b1] by blast+
  then have h2: "bananaHits ?s2 = 2" and p2: "gameState ?s2 = GS_playing"
    unfolding st1 r1 o1 h1 hits_on_player by simp_all
  have st2: "currentSettings ?s2 = ?st"
    unfolding currentSettings_gameLoop [of ?s1] by (rule st1)
  have r2: "playerRef ?s2 = initialPlayer"
    unfolding gameLoop_fields(6) [of ?s1] k1 pl1 by (rule standing)
  have o2: "objects ?s2 = [bananaAt 2 540]"
    unfolding gameLoop_fields(3) [of ?s1] st1 r1 o1
    by (simp add: hits_on_player del: DIFFICULTY_SETTINGS.simps)
  have b2: "bananaHits ?s2 < maxBananaHits (currentSettings ?s2)"
    by (simp add: h2 st2)
  have "bananaHits ?s3 =
      bananaHits ?s2 + hitsOf banana (currentSettings ?s2) (playerRef ?s2) (objects ?s2)"
    and "gameState ?s3 =
      (if maxBananaHits (currentSettings ?s2) \<le>
            bananaHits ?s2 + hitsOf banana (currentSettings ?s2) (playerRef ?s2) (objects ?s2)
       then GS_gameover else GS_playing)"
    using banana_hits_trigger_gameover [OF p2 b2] by blast+
  then have h3: "bananaHits ?s3 = 3" and p3: "gameState ?s3 = GS_gameover"
    unfolding st2 r2 o2 h2 hits_on_player by simp_all
  show ?thesis
    using p0 h0 h1 p1 h2 p2 h3 p3 by (simp add: run_append st0)
qed

section \<open>The player\<close>

text \<open>
  C2. After every sequence of events (frames with any keys held, key presses and
  releases, clicks, spawns) from the initial state, the player's x coordinate lies
  in \<open>[0, GAME_WIDTH - PLAYER_WIDTH]\<close>, which is \<open>[0, 360]\<close>.
\<close>

theorem player_x_in_world:
  "0 \<le> px (player (run evs)) \<and> px (player (run evs)) \<le> GAME_WIDTH - PLAYER_WIDTH \<and>
   GAME_WIDTH - PLAYER_WIDTH = 360"
  using onGrid_bounds [OF onGrid_run [of evs]] by (simp add: constants)

text \<open>Walking left for one frame from the start of a session.\<close>

theorem player_x_in_world_witness:
  "px (player (run [ClickStart, ClickDifficulty easy, KeyDown ArrowLeft, AnimationFrame])) = 175"
  using player_x_in_world
    [of "[ClickStart, ClickDifficulty easy, KeyDown ArrowLeft, AnimationFrame]"]
  by (simp add: run_def initialState_def startGame_def selectDifficulty_def handleKeyDown_def
      Let_def gameLoop_fields px_updatePlayer moveHorizontal_def initialPlayer_def constants)



text \<open>
  C4. While playing, the space key applies \<open>jump\<close> to the player. From the ground a
  jump sets the velocity to \<open>- JUMP_FORCE\<close>, marks the player airborne and arms the
  double jump; a second jump sets the velocity to \<open>- JUMP_FORCE\<close> again and disarms
  the double jump; every further jump leaves the player unchanged. A frame in which
  the player does not land keeps both flags, so this holds across the frames of one
  flight.
\<close>

theorem jump_requests_honoured:
  assumes "gameState s = GS_playing"
  shows "player (handleKeyDown Space s) = jump (player s) \<and>
    (\<not> isJumping p \<longrightarrow>
       jump p = p\<lparr>velocityY := - JUMP_FORCE, isJumping := True, canDoubleJump := True\<rparr> \<and>
       jump (jump p) =
         p\<lparr>velocityY := - JUMP_FORCE, isJumping := True, canDoubleJump := False\<rparr> \<and>
       jump (jump (jump p)) = jump (jump p)) \<and>
    (isJumping p \<and> canDoubleJump p \<longrightarrow>
       jump p = p\<lparr>velocityY := - JUMP_FORCE, canDoubleJump := False\<rparr>) \<and>
    (isJumping p \<and> \<not> canDoubleJump p \<longrightarrow> jump p = p) \<and>
    (py p + (velocityY p + GRAVITY) < GROUND_Y \<longrightarrow>
       isJumping (updatePlayer k p) = isJumping p \<and>
       canDoubleJump (updatePlayer k p) = canDoubleJump p)"
  using assms
  by (simp add: handleKeyDown_def Let_def jump_def updatePlayer_def groundCollision_def)

text \<open>Three presses of the space key at the start of a session.\<close>

theorem jump_requests_honoured_witness:
  "gameState (run [ClickStart, ClickDifficulty easy]) = GS_playing \<and>
   \<not> isJumping initialPlayer \<and>
   player (handleKeyDown Space (run [ClickStart, ClickDifficulty easy])) =
     initialPlayer\<lparr>velocityY := - JUMP_FORCE, isJumping := True, canDoubleJump := True\<rparr> \<and>
   jump (jump initialPlayer) =
     initialPlayer\<lparr>velocityY := - JUMP_FORCE, isJumping := True, canDoubleJump := False\<rparr> \<and>
   jump (jump (jump initialPlayer)) = jump (jump initialPlayer)"
proof -
  let ?s = "run [ClickStart, ClickDifficulty easy]"
  have playing: "gameState ?s = GS_playing"
    and pl: "player ?s = initialPlayer"
    by (simp_all add: run_def initialState_def startGame_def selectDifficulty_def)
  have grounded: "\<not> isJumping initialPlayer"
    by (simp add: initialPlayer_def)
  show ?thesis
    using jump_requests_honoured [OF playing, of initialPlayer "\<lparr>left = False, right = False\<rparr>"]
      playing grounded
    unfolding pl by metis
qed

section \<open>Falling objects\<close>



text \<open>
  C6. After a frame the object list is the moved objects that are on screen and do
  not overlap the player, in their order; the score has grown by 10 for each consumed
  candy and the hit count by 1 for each consumed banana. In the loop body a consumed
  candy adds 10 to the score and is not kept, a consumed banana runs the hit updater,
  which leaves the score alone, and is not kept, and a retained object is appended,
  moved, to the kept list.
\<close>

theorem overlap_consumed_once:
  "objects (gameLoop s) =
     map (movedObj (currentSettings s))
       (filter (retained (currentSettings s) (playerRef s)) (objects s)) \<and>
   score (gameLoop s) =
     score s + 10 * hitsOf candy (currentSettings s) (playerRef s) (objects s) \<and>
   bananaHits (gameLoop s) =
     bananaHits s + hitsOf banana (currentSettings s) (playerRef s) (objects s) \<and>
   (consumed st p obj \<and> otype obj = candy \<longrightarrow>
      forEachBody st p (keep, t) obj = (keep, t\<lparr>score := score t + 10\<rparr>)) \<and>
   (consumed st p obj \<and> otype obj = banana \<longrightarrow>
      forEachBody st p (keep, t) obj = (keep, hitBanana st t) \<and>
      score (hitBanana st t) = score t) \<and>
   (retained st p obj \<longrightarrow>
      forEachBody st p (keep, t) obj = (keep @ [movedObj st obj], t))"
  by (simp add: gameLoop_fields forEachBody_cases consumed_def retained_def)

text \<open>
  One frame on a session holding a candy and a banana on the player and a candy far
  away: the first two are consumed, the third stays and has moved.
\<close>

theorem overlap_consumed_once_witness:
  "objects (gameLoop injected) =
     [\<lparr>oid = 2, ox = 10, oy = 598, width = OBJECT_WIDTH, height = OBJECT_HEIGHT, otype = candy\<rparr>] \<and>
   score (gameLoop injected) = 10 \<and> bananaHits (gameLoop injected) = 1 \<and>
   consumed (DIFFICULTY_SETTINGS easy) initialPlayer
     \<lparr>oid = 0, ox = 185, oy = 520, width = OBJECT_WIDTH, height = OBJECT_HEIGHT, otype = candy\<rparr> \<and>
   consumed (DIFFICULTY_SETTINGS easy) initialPlayer
     \<lparr>oid = 1, ox = 170, oy = 530, width = OBJECT_WIDTH, height = OBJECT_HEIGHT, otype = banana\<rparr> \<and>
   retained (DIFFICULTY_SETTINGS easy) initialPlayer
     \<lparr>oid = 2, ox = 10, oy = 600, width = OBJECT_WIDTH, height = OBJECT_HEIGHT, otype = candy\<rparr>"
  using overlap_consumed_once [of injected "DIFFICULTY_SETTINGS easy" initialPlayer
      "\<lparr>oid = 0, ox = 185, oy = 520, width = OBJECT_WIDTH, height = OBJECT_HEIGHT, otype = candy\<rparr>"
      "[]" injected]
  by (simp add: injected_def selectDifficulty_def initialState_def currentSettings_def
      hitsOf_def consumed_def retained_def offScreen_def checkCollision_def movedObj_def
      initialPlayer_def constants)

text \<open>
  C7. The spawner appends one object with the next id, at the bottom edge
  \<open>GAME_HEIGHT\<close>, at \<open>x = r2 * (GAME_WIDTH - OBJECT_WIDTH)\<close>, of kind candy exactly if
  the draw \<open>r1\<close> exceeds the tier's \<open>bananaChance\<close> and banana otherwise. For every
  tier the draws of the unit interval that give a banana are exactly the interval
  from 0 to \<open>bananaChance\<close>, whose length is \<open>bananaChance\<close>; a tier with a larger
  chance gives a banana on every draw on which a tier with a smaller chance does; and
  the position map sends the unit interval onto \<open>[0, GAME_WIDTH - OBJECT_WIDTH]\<close>.
  The distribution of \<open>Math.random()\<close> itself is not modelled: the probabilities of
  the claim are these lengths under a uniform draw.
\<close>

theorem spawn_kind_and_position:
  "objects (spawnObject r1 r2 s) = objects s @
     [\<lparr>oid = objectIdCounter s, ox = r2 * (GAME_WIDTH - OBJECT_WIDTH), oy = GAME_HEIGHT,
       width = OBJECT_WIDTH, height = OBJECT_HEIGHT, otype = spawnKind (currentSettings s) r1\<rparr>] \<and>
   (spawnKind st r1 = candy \<longleftrightarrow> r1 > bananaChance st) \<and>
   (spawnKind st r1 = banana \<longleftrightarrow> r1 \<le> bananaChance st) \<and>
   hazardDraws (DIFFICULTY_SETTINGS d) = {0 .. bananaChance (DIFFICULTY_SETTINGS d)} \<and>
   Sup (hazardDraws (DIFFICULTY_SETTINGS d)) - Inf (hazardDraws (DIFFICULTY_SETTINGS d)) =
     bananaChance (DIFFICULTY_SETTINGS d) \<and>
   (bananaChance st \<le> bananaChance st' \<longrightarrow> hazardDraws st \<subseteq> hazardDraws st') \<and>
   (\<lambda>r. r * (GAME_WIDTH - OBJECT_WIDTH)) ` {0..1} = {0 .. GAME_WIDTH - OBJECT_WIDTH} \<and>
   (0 \<le> r2 \<and> r2 \<le> 1 \<longrightarrow>
      0 \<le> r2 * (GAME_WIDTH - OBJECT_WIDTH) \<and>
      r2 * (GAME_WIDTH - OBJECT_WIDTH) \<le> GAME_WIDTH - OBJECT_WIDTH)"
proof -
  have len: "Sup (hazardDraws (DIFFICULTY_SETTINGS d)) - Inf (hazardDraws (DIFFICULTY_SETTINGS d)) =
     bananaChance (DIFFICULTY_SETTINGS d)"
    using bananaChance_range [of d] by (simp add: hazardDraws_interval)
  have mono: "bananaChance st \<le> bananaChance st' \<longrightarrow> hazardDraws st \<subseteq> hazardDraws st'"
    by (auto simp: hazardDraws_def spawnKind_def split: if_splits)
  have pos: "0 \<le> r2 \<and> r2 \<le> 1 \<longrightarrow>
      0 \<le> r2 * (GAME_WIDTH - OBJECT_WIDTH) \<and>
      r2 * (GAME_WIDTH - OBJECT_WIDTH) \<le> GAME_WIDTH - OBJECT_WIDTH"
    by (simp add: constants)
  show ?thesis
    using len mono pos hazardDraws_interval [of d] spawn_x_image
    by (simp add: spawnObject_def Let_def spawnKind_def)
qed

text \<open>The draw 0.5 gives a candy on the easy tier and a banana on the nightmare tier.\<close>

theorem spawn_kind_and_position_witness:
  "spawnKind (DIFFICULTY_SETTINGS easy) 0.5 = candy \<and>
   spawnKind (DIFFICULTY_SETTINGS nightmare) 0.5 = banana \<and>
   bananaChance (DIFFICULTY_SETTINGS easy) \<le> bananaChance (DIFFICULTY_SETTINGS nightmare) \<and>
   hazardDraws (DIFFICULTY_SETTINGS easy) \<subseteq> hazardDraws (DIFFICULTY_SETTINGS nightmare) \<and>
   objects (spawnObject 0.5 0.5 (selectDifficulty nightmare initialState)) =
     [\<lparr>oid = 0, ox = 185, oy = 600, width = 30, height = 30, otype = banana\<rparr>]"
  using spawn_kind_and_position [of "0.5" "0.5" "selectDifficulty nightmare initialState"
      "DIFFICULTY_SETTINGS easy" easy "DIFFICULTY_SETTINGS nightmare"]
    spawn_kind_and_position [of "0.5" "0.5" "selectDifficulty nightmare initialState"
      "DIFFICULTY_SETTINGS nightmare" nightmare "DIFFICULTY_SETTINGS nightmare"]
  by (simp add: selectDifficulty_def initialState_def currentSettings_def constants)

section \<open>Intents outside their state\<close>



section \<open>Both arrow keys held\<close>

text \<open>
  C9, as stated, fails: with both keys held the initial player stays at \<open>x = 180\<close>,
  while with only the right key held it moves to \<open>x = 185\<close>. A simultaneous press is
  not right-only motion.
\<close>

theorem both_keys_right_only_counterexample:
  "px (updatePlayer \<lparr>left = True, right = True\<rparr> initialPlayer) = px initialPlayer \<and>
   px (updatePlayer \<lparr>left = False, right = True\<rparr> initialPlayer) = px initialPlayer + PLAYER_SPEED \<and>
   px (updatePlayer \<lparr>left = True, right = True\<rparr> initialPlayer)
     \<noteq> px (updatePlayer \<lparr>left = False, right = True\<rparr> initialPlayer)"
  by (simp add: updatePlayer_def moveHorizontal_def Let_def initialPlayer_def constants)

text \<open>
  C9, amended. With both keys held the new x is a function of the old x alone: the
  left move is applied first, if \<open>x > 0\<close>, and the right move second, if the result is
  below \<open>GAME_WIDTH - PLAYER_WIDTH\<close>. The two moves cancel: x is unchanged whenever
  \<open>0 < x\<close> and \<open>x - PLAYER_SPEED < GAME_WIDTH - PLAYER_WIDTH\<close>, in particular for every
  reachable player with \<open>0 < x\<close>; only at \<open>x \<le> 0\<close>, where the left move is blocked, the
  player moves right by \<open>PLAYER_SPEED\<close>.
\<close>

theorem both_keys_zero_sum:
  assumes "left k \<and> right k"
  shows "px (updatePlayer k p) =
      (let x1 = (if px p > 0 then px p - PLAYER_SPEED else px p)
       in if x1 < GAME_WIDTH - PLAYER_WIDTH then x1 + PLAYER_SPEED else x1) \<and>
    (0 < px p \<and> px p - PLAYER_SPEED < GAME_WIDTH - PLAYER_WIDTH \<longrightarrow>
       px (updatePlayer k p) = px p) \<and>
    (px p \<le> 0 \<longrightarrow> px (updatePlayer k p) = px p + PLAYER_SPEED) \<and>
    (0 < px (player (run evs)) \<longrightarrow>
       px (updatePlayer k (player (run evs))) = px (player (run evs))) \<and>
    (px (player (run evs)) = 0 \<longrightarrow> px (updatePlayer k (player (run evs))) = PLAYER_SPEED)"
proof -
  have "px (player (run evs)) \<le> GAME_WIDTH - PLAYER_WIDTH"
    using onGrid_bounds [OF onGrid_run [of evs]] by simp
  then show ?thesis using assms
    by (simp add: px_updatePlayer moveHorizontal_def Let_def constants)
qed

text \<open>Both keys held at the initial position and at the left wall.\<close>

theorem both_keys_zero_sum_witness:
  "left \<lparr>left = True, right = True\<rparr> \<and> right \<lparr>left = True, right = True\<rparr> \<and>
   0 < px (player (run [])) \<and>
   px (updatePlayer \<lparr>left = True, right = True\<rparr> (player (run []))) = 180 \<and>
   px (updatePlayer \<lparr>left = True, right = True\<rparr> (initialPlayer\<lparr>px := 0\<rparr>)) = 5"
  using both_keys_zero_sum [of "\<lparr>left = True, right = True\<rparr>" "initialPlayer\<lparr>px := 0\<rparr>" "[]"]
  by (simp add: run_def initialState_def initialPlayer_def constants)

section \<open>The double jump is armed only in the air\<close>

text \<open>
  C10. The initial player and the player set by \<open>selectDifficulty\<close> have no double
  jump armed; the jump updater returns, from any player, one whose armed double jump
  implies being airborne; the frame update preserves that implication; hence in every
  reachable state \<open>canDoubleJump\<close> implies \<open>isJumping\<close>, and a player on the ground
  never has a double jump armed.
\<close>

theorem double_jump_implies_airborne:
  "armedOnlyAirborne initialPlayer \<and>
   armedOnlyAirborne (player (selectDifficulty diff s)) \<and>
   armedOnlyAirborne (jump p) \<and>
   (armedOnlyAirborne p \<longrightarrow> armedOnlyAirborne (updatePlayer k p)) \<and>
   (canDoubleJump (player (run evs)) \<longrightarrow> isJumping (player (run evs))) \<and>
   (\<not> isJumping (player (run evs)) \<longrightarrow> \<not> canDoubleJump (player (run evs)))"
proof -
  have init: "armedOnlyAirborne initialPlayer"
    by (simp add: armedOnlyAirborne_def initialPlayer_def)
  have "armedOnlyAirborne (player (run evs)) \<and> armedOnlyAirborne (playerRef (run evs))"
    by (rule player_run_invariant) (simp_all add: init armed_jump armed_updatePlayer)
  then have reach: "canDoubleJump (player (run evs)) \<longrightarrow> isJumping (player (run evs))"
    by (simp add: armedOnlyAirborne_def)
  show ?thesis
    using init reach by (auto simp: armed_jump armed_updatePlayer selectDifficulty_def)
qed

text \<open>After one jump the double jump is armed in the air; after a second it is spent.\<close>

theorem double_jump_implies_airborne_witness:
  "canDoubleJump (player (run [ClickStart, ClickDifficulty easy, KeyDown Space])) \<and>
   isJumping (player (run [ClickStart, ClickDifficulty easy, KeyDown Space])) \<and>
   \<not> canDoubleJump (player (run [ClickStart, ClickDifficulty easy, KeyDown Space, KeyDown Space]))"
  using double_jump_implies_airborne [of easy initialState initialPlayer
      "\<lparr>left = False, right = False\<rparr>" "[ClickStart, ClickDifficulty easy, KeyDown Space]"]
  by (simp add: run_def initialState_def startGame_def selectDifficulty_def handleKeyDown_def
      jump_def initialPlayer_def Let_def)

end
